theory Spec2Isabelle
  imports Complex_Main
begin

section \<open>Pair-wise distances: the kernels of Pairs\_Fortran.ipynb\<close>

text \<open>
  The notebook holds two kernels for the packed upper triangle of the Euclidean distance
  matrix of \<open>N\<close> points in three dimensions: the Cython function \<open>r_ij_cython\<close> and the
  Fortran subroutine \<open>getrij\<close> with its Python wrapper \<open>r_ij_fortran\<close>.

  Conventions of the embedding:
  \<^item> a \<open>double\<close> is a \<open>real\<close>: arithmetic and \<open>sqrt\<close> are exact (no rounding, no NaN);
  \<^item> a C \<open>int\<close> and a Fortran default \<open>integer\<close> are 32-bit two's complement: they are
    values of \<open>int\<close>, and every arithmetic operation on them is wrapped by \<open>c_int\<close>;
    a Python \<open>int\<close> is an unbounded \<open>int\<close>;
  \<^item> an exception, and an access outside an array (which the source leaves unchecked:
    \<open>boundscheck(False)\<close>, \<open>wraparound(False)\<close>, no Fortran bounds check), is an
    \<open>error\<close> value;
  \<^item> the iterations of the OpenMP loops (\<open>prange\<close>, \<open>PARALLEL DO\<close>) run in index order,
    one after the other. What concurrent iterations do to the scalars \<open>l\<close>, \<open>tmp\<close>,
    \<open>ii\<close>, \<open>jj\<close> of \<open>getrij\<close>, which its \<open>PARALLEL DO\<close> does not declare private, is
    not modelled;
  \<^item> memory is unbounded: \<open>np.zeros\<close> never fails for lack of it.
\<close>

subsection \<open>Errors and loops\<close>

datatype error = ValueError | OutOfBounds

fun ebind :: "error + 'a \<Rightarrow> ('a \<Rightarrow> error + 'b) \<Rightarrow> error + 'b" where
  "ebind (Inl e) f = Inl e"
| "ebind (Inr x) f = f x"

text \<open>\<open>for x in xs: s = body x s\<close>, stopping at the first error.\<close>

fun efold :: "('a \<Rightarrow> 's \<Rightarrow> error + 's) \<Rightarrow> 'a list \<Rightarrow> 's \<Rightarrow> error + 's" where
  "efold body [] s = Inr s"
| "efold body (x # xs) s = ebind (body x s) (efold body xs)"

subsection \<open>Machine integers\<close>

definition c_int :: "int \<Rightarrow> int" where
  "c_int x = (x + 2147483648) mod 4294967296 - 2147483648"

definition c_add :: "int \<Rightarrow> int \<Rightarrow> int" where
  "c_add a b = c_int (a + b)"

definition c_sub :: "int \<Rightarrow> int \<Rightarrow> int" where
  "c_sub a b = c_int (a - b)"

definition c_mul :: "int \<Rightarrow> int \<Rightarrow> int" where
  "c_mul a b = c_int (a * b)"

text \<open>Fortran integer division truncates toward zero.\<close>

definition f_div :: "int \<Rightarrow> int \<Rightarrow> int" where
  "f_div a b = (if (a < 0) = (b < 0) then \<bar>a\<bar> div \<bar>b\<bar> else - (\<bar>a\<bar> div \<bar>b\<bar>))"

text \<open>\<open>int(x)\<close> of a \<open>double\<close> drops the fractional part.\<close>

definition trunc :: "real \<Rightarrow> int" where
  "trunc x = (if 0 \<le> x then \<lfloor>x\<rfloor> else \<lceil>x\<rceil>)"

subsection \<open>Arrays\<close>

type_synonym matrix = "real list list"

text \<open>\<open>range(a, b)\<close> and the Fortran \<open>do v = a, b\<close>.\<close>

definition py_range :: "int \<Rightarrow> int \<Rightarrow> int list" where
  "py_range a b = [a..b - 1]"

definition do_range :: "int \<Rightarrow> int \<Rightarrow> int list" where
  "do_range a b = [a..b]"

text \<open>\<open>np.zeros(n)\<close> raises \<open>ValueError\<close> on a negative dimension.\<close>

definition np_zeros :: "int \<Rightarrow> error + real list" where
  "np_zeros n = (if n < 0 then Inl ValueError else Inr (replicate (nat n) 0))"

text \<open>\<open>coords[i,k]\<close> and \<open>r[l] = v\<close> on typed memoryviews, 0-based.\<close>

definition getitem2 :: "matrix \<Rightarrow> int \<Rightarrow> int \<Rightarrow> error + real" where
  "getitem2 coords i k =
     (if 0 \<le> i \<and> i < int (length coords) \<and> 0 \<le> k \<and> k < int (length (coords ! nat i))
      then Inr (coords ! nat i ! nat k) else Inl OutOfBounds)"

definition setitem :: "real list \<Rightarrow> int \<Rightarrow> real \<Rightarrow> error + real list" where
  "setitem r l v =
     (if 0 \<le> l \<and> l < int (length r) then Inr (r[nat l := v]) else Inl OutOfBounds)"

text \<open>\<open>a(idx)\<close> and \<open>a(idx) = v\<close> on a Fortran array declared \<open>dimension(d)\<close>, 1-based.\<close>

definition f_get :: "real list \<Rightarrow> int \<Rightarrow> int \<Rightarrow> error + real" where
  "f_get a d idx =
     (if 1 \<le> idx \<and> idx \<le> d \<and> idx \<le> int (length a)
      then Inr (a ! nat (idx - 1)) else Inl OutOfBounds)"

definition f_set :: "real list \<Rightarrow> int \<Rightarrow> int \<Rightarrow> real \<Rightarrow> error + real list" where
  "f_set a d idx v =
     (if 1 \<le> idx \<and> idx \<le> d \<and> idx \<le> int (length a)
      then Inr (a[nat (idx - 1) := v]) else Inl OutOfBounds)"

text \<open>\<open>coords.ravel()\<close> of a C-contiguous matrix: the rows one after the other.\<close>

definition ravel :: "matrix \<Rightarrow> real list" where
  "ravel coords = concat coords"

subsection \<open>The Cython kernel\<close>

text \<open>
  \<open>l = int(i * (N - 1) - i * (i + 1) / 2 + j - 1)\<close>: the products are C \<open>int\<close> products,
  \<open>/\<close> is true division, so the rest of the expression is computed in \<open>double\<close>; the
  result is cut to an \<open>int\<close>.
\<close>

definition linindex_cython :: "int \<Rightarrow> int \<Rightarrow> int \<Rightarrow> int" where
  "linindex_cython i j N =
     c_int (trunc (real_of_int (c_mul i (c_sub N 1))
                   - real_of_int (c_mul i (c_add i 1)) / 2 + real_of_int j - 1))"

text \<open>
  \<open>int((N*N-N)/2)\<close>, the size handed to \<open>np.zeros\<close>: the product and the difference
  are C \<open>int\<close> operations. Their result is even, so the quotient is a whole number and
  \<open>int\<close> does not round.
\<close>

definition alloc_cython :: "int \<Rightarrow> int" where
  "alloc_cython N = trunc (real_of_int (c_sub (c_mul N N) N) / 2)"

text \<open>
  \<open>tmp = 0.0; for k in range(3): tmp = tmp + (coords[i,k]-coords[j,k])**2\<close>
\<close>

definition sqsum_cython :: "matrix \<Rightarrow> int \<Rightarrow> int \<Rightarrow> error + real" where
  "sqsum_cython coords i j =
     efold (\<lambda>k tmp. ebind (getitem2 coords i k) (\<lambda>a.
                     ebind (getitem2 coords j k) (\<lambda>b. Inr (tmp + (a - b)\<^sup>2))))
           (py_range 0 3) 0"

definition body_cython :: "matrix \<Rightarrow> int \<Rightarrow> int \<Rightarrow> int \<Rightarrow> real list \<Rightarrow> error + real list" where
  "body_cython coords N i j r =
     (let l = linindex_cython i j N in
      ebind (sqsum_cython coords i j) (\<lambda>tmp. setitem r l (sqrt tmp)))"

text \<open>
  \<open>N = coords.shape[0]\<close> is stored in a C \<open>int\<close>; \<open>dim = coords.shape[1]\<close> is never used.
\<close>

definition r_ij_cython :: "matrix \<Rightarrow> error + real list" where
  "r_ij_cython coords =
     (let N = c_int (int (length coords)) in
      ebind (np_zeros (alloc_cython N)) (\<lambda>r.
        efold (\<lambda>i. efold (body_cython coords N i) (py_range (c_add i 1) N))
              (py_range 0 N) r))"

subsection \<open>The Fortran kernel\<close>

text \<open>
  \<open>l = 1 + (i * (N - 1) - i * (i + 1) / 2 + j - 1)\<close>, all in default integers; \<open>r(l)\<close> is
  1-based, so the slot written is \<open>l - 1\<close> counted from 0.
\<close>

definition linindex_fortran :: "int \<Rightarrow> int \<Rightarrow> int \<Rightarrow> int" where
  "linindex_fortran i j N =
     c_add 1 (c_sub (c_add (c_sub (c_mul i (c_sub N 1)) (f_div (c_mul i (c_add i 1)) 2)) j) 1)"

definition sqsum_fortran :: "real list \<Rightarrow> int \<Rightarrow> int \<Rightarrow> int \<Rightarrow> error + real" where
  "sqsum_fortran coords N ii jj =
     efold (\<lambda>k tmp. ebind (f_get coords (c_mul N 3) (c_add ii k)) (\<lambda>a.
                     ebind (f_get coords (c_mul N 3) (c_add jj k)) (\<lambda>b. Inr (tmp + (a - b)\<^sup>2))))
           (do_range 1 3) 0"

definition body_fortran ::
  "real list \<Rightarrow> int \<Rightarrow> int \<Rightarrow> int \<Rightarrow> int \<Rightarrow> int \<Rightarrow> real list \<Rightarrow> error + real list" where
  "body_fortran coords N M i ii j r =
     (let jj = c_mul j 3 in
      ebind (sqsum_fortran coords N ii jj) (\<lambda>tmp.
        let l = linindex_fortran i j N in f_set r M l (sqrt tmp)))"

text \<open>
  The subroutine updates \<open>r\<close> in place; the model returns the updated array. The
  assignment \<open>l = 0\<close> before the loops is dead: \<open>l\<close> is assigned again before each use.
\<close>

definition getrij :: "real list \<Rightarrow> real list \<Rightarrow> int \<Rightarrow> int \<Rightarrow> error + real list" where
  "getrij coords r N M =
     efold (\<lambda>i. let ii = c_mul i 3 in
                efold (body_fortran coords N M i ii) (do_range (c_add i 1) (c_sub N 1)))
           (do_range 0 (c_sub N 1)) r"

text \<open>
  The wrapper computes \<open>N\<close> and \<open>M\<close> as Python integers and hands them to the subroutine,
  whose dummy arguments are \<open>integer(c_int)\<close>.
\<close>

definition r_ij_fortran :: "matrix \<Rightarrow> error + real list" where
  "r_ij_fortran coords =
     (let N = int (length coords); M = (N * N - N) div 2 in
      ebind (np_zeros M) (\<lambda>r. getrij (ravel coords) r (c_int N) (c_int M)))"


subsection \<open>The packing of the upper triangle\<close>

text \<open>
  The formula of the specification for the slot of the pair \<open>(i, j)\<close>,
  \<open>linindex(i,j,N) = i*(N-1) - i*(i+1)/2 + j - 1\<close>, over the integers. It follows the
  specification's words. What the kernels compute are \<open>linindex_cython\<close> and
  \<open>linindex_fortran\<close> above, in 32-bit integers; they agree with the formula only while
  no product leaves the 32-bit range (lemmas \<open>linindex_cython_eq\<close>,
  \<open>linindex_fortran_eq\<close>), and differ from it beyond.
\<close>

definition linindex :: "int \<Rightarrow> int \<Rightarrow> int \<Rightarrow> int" where
  "linindex i j N = i * (N - 1) - i * (i + 1) div 2 + j - 1"

text \<open>The first slot of row \<open>i\<close>, that is \<open>linindex i (i + 1) N\<close>.\<close>

definition row_start :: "int \<Rightarrow> int \<Rightarrow> int" where
  "row_start i N = i * (N - 1) - i * (i + 1) div 2 + i"

text \<open>An \<open>N\<close>\<open>\<times>\<close>3 matrix: every row has three columns.\<close>

definition is_Nx3 :: "matrix \<Rightarrow> bool" where
  "is_Nx3 coords = list_all (\<lambda>row. length row = 3) coords"

text \<open>The squared distance of rows \<open>i\<close> and \<open>j\<close>, summed in the order of the \<open>k\<close> loop.\<close>

definition sqdist :: "matrix \<Rightarrow> nat \<Rightarrow> nat \<Rightarrow> real" where
  "sqdist coords i j =
     (coords ! i ! 0 - coords ! j ! 0)\<^sup>2 + (coords ! i ! 1 - coords ! j ! 1)\<^sup>2
       + (coords ! i ! 2 - coords ! j ! 2)\<^sup>2"

text \<open>The pairs in the order the loops visit them, and the vector the loops leave.\<close>

definition pairs :: "int \<Rightarrow> (int \<times> int) list" where
  "pairs N = concat (map (\<lambda>i. map (Pair i) [i + 1..N - 1]) [0..N - 1])"

definition packed :: "matrix \<Rightarrow> real list" where
  "packed coords =
     (let N = int (length coords) in
      fold (\<lambda>p r. r[nat (linindex (fst p) (snd p) N) :=
                       sqrt (sqdist coords (nat (fst p)) (nat (snd p)))])
           (pairs N) (replicate (nat (N * (N - 1) div 2)) 0))"

text \<open>
  The reference the specification compares with: a brute-force double loop over all
  ordered pairs of rows, each entry the square root of the sum of the squared coordinate
  differences. It follows the specification's words, not the notebook.
\<close>

definition reference_brute_force :: "matrix \<Rightarrow> real list list" where
  "reference_brute_force coords =
     map (\<lambda>a. map (\<lambda>b. sqrt (\<Sum>k\<leftarrow>[0..<3]. (a ! k - b ! k)\<^sup>2)) coords) coords"

section \<open>Loops with errors\<close>

text \<open>
  Facts about \<open>efold\<close>: a nested loop is one loop over the list of index pairs, a loop
  whose body is an in-range store is a \<open>fold\<close> of list updates, and an invariant of the
  body is an invariant of the loop.
\<close>

lemma ebind_case: "ebind m f = (case m of Inl e \<Rightarrow> Inl e | Inr x \<Rightarrow> f x)"
  by (cases m) simp_all

lemma efold_append: "efold f (xs @ ys) s = ebind (efold f xs s) (efold f ys)"
  by (induction xs arbitrary: s) (auto simp: ebind_case split: sum.splits)

lemma efold_cong: "(\<And>x s. x \<in> set xs \<Longrightarrow> f x s = g x s) \<Longrightarrow> efold f xs s = efold g xs s"
proof (induction xs arbitrary: s)
  case Nil
  show ?case by simp
next
  case (Cons x xs)
  have "f x s = g x s" using Cons.prems by simp
  moreover have "efold f xs t = efold g xs t" for t
    using Cons.prems by (intro Cons.IH) simp
  ultimately show ?case by (simp add: ebind_case split: sum.splits)
qed

lemma efold_map: "efold f (map h xs) s = efold (\<lambda>x. f (h x)) xs s"
  by (induction xs arbitrary: s) (auto simp: ebind_case split: sum.splits)

lemma efold_nested:
  "efold (\<lambda>i. efold (f i) (g i)) is s =
   efold (\<lambda>(i, j). f i j) (concat (map (\<lambda>i. map (Pair i) (g i)) is)) s"
proof (induction "is" arbitrary: s)
  case Nil
  show ?case by simp
next
  case (Cons i "is")
  show ?case
    by (simp add: efold_append efold_map Cons.IH ebind_case split: sum.splits)
qed

lemma efold_invariant:
  assumes "efold f xs s = Inr t" and "P s"
    and "\<And>x u v. x \<in> set xs \<Longrightarrow> P u \<Longrightarrow> f x u = Inr v \<Longrightarrow> P v"
  shows "P t"
  using assms
proof (induction xs arbitrary: s)
  case Nil
  then show ?case by simp
next
  case (Cons x xs)
  from Cons.prems(1) obtain u where u: "f x s = Inr u" "efold f xs u = Inr t"
    by (cases "f x s") simp_all
  have "P u" using Cons.prems(3) [of x s u] Cons.prems(2) u(1) by simp
  with u(2) show ?case using Cons.prems(3) by (intro Cons.IH [of u]) auto
qed

lemma efold_setitem:
  "(\<And>x. x \<in> set xs \<Longrightarrow> 0 \<le> idx x \<and> idx x < int (length r)) \<Longrightarrow>
   efold (\<lambda>x r. setitem r (idx x) (val x)) xs r =
     Inr (fold (\<lambda>x r. r[nat (idx x) := val x]) xs r)"
  by (induction xs arbitrary: r) (simp_all add: setitem_def)

lemma length_fold_update: "length (fold (\<lambda>x r. r[ix x := val x]) xs r) = length r"
  by (induction xs arbitrary: r) simp_all

lemma nth_fold_update_other:
  "m \<notin> ix ` set xs \<Longrightarrow> fold (\<lambda>x r. r[ix x := val x]) xs r ! m = r ! m"
  by (induction xs arbitrary: r) auto

lemma nth_fold_update:
  "inj_on ix (set xs) \<Longrightarrow> x \<in> set xs \<Longrightarrow> ix x < length r \<Longrightarrow>
   fold (\<lambda>x r. r[ix x := val x]) xs r ! ix x = val x"
proof (induction xs arbitrary: r)
  case Nil
  then show ?case by simp
next
  case (Cons y ys)
  show ?case
  proof (cases "x \<in> set ys")
    case True
    then show ?thesis using Cons.prems by (simp add: Cons.IH)
  next
    case False
    with Cons.prems have xy: "x = y" by simp
    have "ix x \<notin> ix ` set ys"
    proof
      assume "ix x \<in> ix ` set ys"
      then obtain z where "z \<in> set ys" "ix z = ix x" by auto
      with Cons.prems(1) have "z = x" by (auto simp: inj_on_def xy)
      with \<open>z \<in> set ys\<close> False show False by simp
    qed
    then show ?thesis using Cons.prems(3) by (simp add: xy nth_fold_update_other)
  qed
qed

section \<open>The index formula\<close>

text \<open>
  Row \<open>i\<close> of the upper triangle occupies the slots from \<open>row_start i N\<close> up to, and not
  including, \<open>row_start (i + 1) N\<close>; the rows follow one another without a gap, and the
  last one ends at \<open>N * (N - 1) div 2\<close>.
\<close>

lemma triangle_step: "(i + 1) * (i + 1 + 1) div 2 = i * (i + 1) div 2 + (i + 1)" for i :: int
proof -
  have "(i + 1) * (i + 1 + 1) = i * (i + 1) + (i + 1) * 2"
    by (simp add: algebra_simps)
  then show ?thesis
    by (simp only: div_mult_self1 div_mult_self2 div_mult_self3 div_mult_self4)
qed

lemma triangle_even: "2 * (i * (i + 1) div 2) = i * (i + 1)" for i :: int
  by simp

lemma row_start_step: "row_start (i + 1) N = row_start i N + (N - 1 - i)"
  unfolding row_start_def triangle_step by (simp add: algebra_simps)

lemma row_start_0: "row_start 0 N = 0"
  by (simp add: row_start_def)

lemma row_start_mono: "i \<le> k \<Longrightarrow> k \<le> N \<Longrightarrow> row_start i N \<le> row_start k N"
proof (induction k rule: int_ge_induct)
  case base
  show ?case by simp
next
  case (step k)
  then show ?case by (simp add: row_start_step)
qed

lemma row_start_last: "row_start (N - 1) N = N * (N - 1) div 2"
proof -
  define t where "t = (N - 1) * N div 2"
  have e: "2 * t = (N - 1) * N"
    using triangle_even [of "N - 1"] by (simp add: t_def)
  have "row_start (N - 1) N = (N - 1) * (N - 1) - t + (N - 1)"
    unfolding row_start_def t_def by simp
  also have "\<dots> = 2 * t - t"
    unfolding e by (simp add: algebra_simps)
  finally show ?thesis
    by (simp add: t_def mult.commute)
qed

lemma linindex_row: "linindex i j N = row_start i N + (j - i - 1)"
  by (simp add: linindex_def row_start_def)

lemma linindex_bounds:
  assumes "0 \<le> i" "i < j" "j < N"
  shows "0 \<le> linindex i j N" and "linindex i j N < N * (N - 1) div 2"
proof -
  have "row_start 0 N \<le> row_start i N"
    using assms by (intro row_start_mono) auto
  then show "0 \<le> linindex i j N"
    using assms by (simp add: linindex_row row_start_0)
  have "row_start (i + 1) N \<le> row_start (N - 1) N"
    using assms by (intro row_start_mono) auto
  then show "linindex i j N < N * (N - 1) div 2"
    using assms by (simp add: linindex_row row_start_step row_start_last)
qed

lemma linindex_rows_ordered:
  assumes "0 \<le> i" "i < j" "j < N" "i < i'" "i' < j'" "j' < N"
  shows "linindex i j N < linindex i' j' N"
proof -
  have "row_start (i + 1) N \<le> row_start i' N"
    using assms by (intro row_start_mono) auto
  then show ?thesis
    using assms by (simp add: linindex_row row_start_step)
qed

lemma linindex_inj:
  assumes "0 \<le> i" "i < j" "j < N" "0 \<le> i'" "i' < j'" "j' < N"
    and eq: "linindex i j N = linindex i' j' N"
  shows "i = i' \<and> j = j'"
proof -
  have "\<not> i < i'" using linindex_rows_ordered [of i j N i' j'] assms by auto
  moreover have "\<not> i' < i" using linindex_rows_ordered [of i' j' N i j] assms by auto
  ultimately have "i = i'" by simp
  then show ?thesis using eq by (simp add: linindex_row)
qed

lemma row_of_slot:
  "0 \<le> k \<Longrightarrow> 0 \<le> m \<Longrightarrow> m < row_start k N \<Longrightarrow>
     \<exists>i. 0 \<le> i \<and> i < k \<and> row_start i N \<le> m \<and> m < row_start (i + 1) N"
proof (induction k rule: int_ge_induct)
  case base
  then show ?case by (simp add: row_start_0)
next
  case (step k)
  show ?case
  proof (cases "m < row_start k N")
    case True
    with step obtain i where "0 \<le> i" "i < k" "row_start i N \<le> m" "m < row_start (i + 1) N"
      by blast
    then show ?thesis by (intro exI [of _ i]) simp
  next
    case False
    with step show ?thesis by (intro exI [of _ k]) simp
  qed
qed

lemma linindex_surj:
  assumes "0 \<le> N" "0 \<le> m" "m < N * (N - 1) div 2"
  shows "\<exists>i j. 0 \<le> i \<and> i < j \<and> j < N \<and> linindex i j N = m"
proof -
  have "N \<noteq> 0" using assms by auto
  with assms have "0 \<le> N - 1" by simp
  from row_of_slot [of "N - 1" m N] this assms(2) assms(3)
  obtain i where i: "0 \<le> i" "i < N - 1" "row_start i N \<le> m" "m < row_start (i + 1) N"
    by (auto simp: row_start_last)
  let ?j = "m - row_start i N + i + 1"
  have "i < ?j" using i by simp
  moreover have "?j < N" using i by (simp add: row_start_step)
  moreover have "linindex i ?j N = m" by (simp add: linindex_row)
  ultimately show ?thesis using i(1) by blast
qed

section \<open>Machine integers in range\<close>

text \<open>
  A value inside the 32-bit range is not changed by \<open>c_int\<close>, and wrapping an
  intermediate result does not change a wrapped difference. The size that \<open>r_ij_cython\<close>
  allocates is therefore \<open>N * (N - 1) div 2\<close> as long as \<open>N * (N - 1)\<close> is in range.
\<close>

lemma c_int_id: "- 2147483648 \<le> x \<Longrightarrow> x < 2147483648 \<Longrightarrow> c_int x = x"
  by (simp add: c_int_def)

lemma c_int_diff_left: "c_int (c_int a - b) = c_int (a - b)"
proof -
  have "(c_int a - b + 2147483648) mod 4294967296 = (a - b + 2147483648) mod 4294967296"
  proof -
    have "c_int a - b + 2147483648 = (a + 2147483648) mod 4294967296 - b"
      by (simp add: c_int_def)
    also have "\<dots> mod 4294967296 = (a + 2147483648 - b) mod 4294967296"
      by (rule mod_diff_left_eq)
    finally show ?thesis by (simp add: algebra_simps)
  qed
  then show ?thesis by (simp add: c_int_def)
qed

lemma trunc_of_int: "trunc (of_int z) = z"
  by (simp add: trunc_def)

lemma trunc_half: "trunc (real_of_int (2 * t) / 2) = t"
  using trunc_of_int [of t] by simp

lemma product_even: "N * N - N = 2 * (N * (N - 1) div 2)" for N :: int
proof -
  have "2 * ((N - 1) * (N - 1 + 1) div 2) = (N - 1) * (N - 1 + 1)"
    by (rule triangle_even)
  then show ?thesis by (simp add: algebra_simps)
qed

lemma alloc_cython_eq:
  assumes "0 \<le> N" "N \<le> 46341"
  shows "alloc_cython N = N * (N - 1) div 2"
proof -
  have "N * (N - 1) \<le> 46341 * 46340"
  proof (cases "N = 0")
    case True then show ?thesis by simp
  next
    case False
    with assms show ?thesis by (intro mult_mono) auto
  qed
  moreover have "0 \<le> N * (N - 1)"
  proof (cases "N = 0")
    case True then show ?thesis by simp
  next
    case False
    with assms show ?thesis by (intro mult_nonneg_nonneg) auto
  qed
  ultimately have "c_int (N * N - N) = N * N - N"
    by (intro c_int_id) (simp_all add: algebra_simps)
  then have "c_sub (c_mul N N) N = 2 * (N * (N - 1) div 2)"
    using product_even [of N] by (simp add: c_sub_def c_mul_def c_int_diff_left)
  then show ?thesis
    unfolding alloc_cython_def by (simp only: trunc_half)
qed

section \<open>The Cython kernel computes the packed vector\<close>

text \<open>
  For at most 46341 rows of three columns every read and every store of \<open>r_ij_cython\<close> is
  in range, \<open>linindex_cython\<close> is \<open>linindex\<close>, and the loops leave \<open>packed coords\<close>.
\<close>

lemma upto_0_2: "[0..2] = [0, 1, 2::int]"
  by (simp add: upto_rec1)

lemma upto_1_3: "[1..3] = [1, 2, 3::int]"
  by (simp add: upto_rec1)

lemma row_length: "is_Nx3 coords \<Longrightarrow> i < length coords \<Longrightarrow> length (coords ! i) = 3"
  by (simp add: is_Nx3_def list_all_length)

lemma sqsum_cython_eq:
  assumes "is_Nx3 coords" "0 \<le> i" "i < int (length coords)" "0 \<le> j" "j < int (length coords)"
  shows "sqsum_cython coords i j = Inr (sqdist coords (nat i) (nat j))"
proof -
  have "length (coords ! nat i) = 3" "length (coords ! nat j) = 3"
    using assms by (simp_all add: row_length)
  then have "getitem2 coords i k = Inr (coords ! nat i ! nat k)"
    and "getitem2 coords j k = Inr (coords ! nat j ! nat k)" if "0 \<le> k" "k < 3" for k
    using assms that by (simp_all add: getitem2_def)
  then show ?thesis
    by (simp add: sqsum_cython_def py_range_def upto_0_2 sqdist_def)
qed

lemma product_bound:
  fixes a :: int
  assumes "0 \<le> a" "a \<le> A" "0 \<le> b" "b \<le> B"
  shows "0 \<le> a * b \<and> a * b \<le> A * B"
  using assms by (simp add: mult_mono)

lemma linindex_cython_eq:
  assumes "0 \<le> i" "i < j" "j < N" "N \<le> 46341"
  shows "linindex_cython i j N = linindex i j N"
proof -
  have n1: "c_sub N 1 = N - 1" and i1: "c_add i 1 = i + 1"
    using assms by (simp_all add: c_sub_def c_add_def c_int_id)
  have "0 \<le> i * (N - 1) \<and> i * (N - 1) \<le> 46339 * 46340"
    using assms by (intro product_bound) auto
  then have m1: "c_mul i (N - 1) = i * (N - 1)"
    by (simp add: c_mul_def c_int_id)
  define t where "t = i * (i + 1) div 2"
  have t2: "i * (i + 1) = 2 * t"
    unfolding t_def by (rule triangle_even [symmetric])
  have "0 \<le> i * (i + 1) \<and> i * (i + 1) \<le> 46339 * 46340"
    using assms by (intro product_bound) auto
  then have "c_mul i (i + 1) = i * (i + 1)"
    by (simp add: c_mul_def c_int_id)
  then have m2: "c_mul i (i + 1) = 2 * t"
    by (simp only: t2)
  have "real_of_int (i * (N - 1)) - real_of_int (2 * t) / 2 + real_of_int j - 1
          = real_of_int (i * (N - 1) - t + j - 1)"
    by simp
  then have t: "trunc (real_of_int (i * (N - 1)) - real_of_int (2 * t) / 2
          + real_of_int j - 1) = linindex i j N"
    by (simp only: trunc_of_int linindex_def t_def)
  have "0 \<le> linindex i j N" "linindex i j N < N * (N - 1) div 2"
    using assms by (simp_all add: linindex_bounds)
  moreover have "0 \<le> N * (N - 1) \<and> N * (N - 1) \<le> 46341 * 46340"
    using assms by (intro product_bound) auto
  ultimately have "c_int (linindex i j N) = linindex i j N"
    by (intro c_int_id) auto
  then show ?thesis
    unfolding linindex_cython_def n1 i1 m1 m2 t .
qed

lemma body_cython_eq:
  assumes "is_Nx3 coords" "0 \<le> i" "i < j" "j < N" "N = int (length coords)" "N \<le> 46341"
  shows "body_cython coords N i j r =
           setitem r (linindex i j N) (sqrt (sqdist coords (nat i) (nat j)))"
proof -
  have "sqsum_cython coords i j = Inr (sqdist coords (nat i) (nat j))"
    using assms by (intro sqsum_cython_eq) auto
  moreover have "linindex_cython i j N = linindex i j N"
    using assms by (intro linindex_cython_eq) auto
  ultimately show ?thesis by (simp add: body_cython_def)
qed

lemma set_pairs: "set (pairs N) = {(i, j). 0 \<le> i \<and> i < j \<and> j < N}"
proof -
  have "(a, b) \<in> set (pairs N) \<longleftrightarrow> 0 \<le> a \<and> a < b \<and> b < N" for a b
  proof
    assume "(a, b) \<in> set (pairs N)"
    then show "0 \<le> a \<and> a < b \<and> b < N"
      by (auto simp: pairs_def)
  next
    assume "0 \<le> a \<and> a < b \<and> b < N"
    then show "(a, b) \<in> set (pairs N)"
      by (auto simp: pairs_def intro!: bexI [of _ a])
  qed
  then show ?thesis by auto
qed

lemma slots_nonneg: "0 \<le> N \<Longrightarrow> 0 \<le> N * (N - 1) div 2" for N :: int
proof -
  assume "0 \<le> N"
  then have "0 \<le> N * (N - 1)"
    by (cases "N = 0") (simp_all add: mult_nonneg_nonneg)
  then show ?thesis by simp
qed

lemma kernel_loops:
  assumes body: "\<And>i j r. 0 \<le> i \<Longrightarrow> i < j \<Longrightarrow> j < N \<Longrightarrow>
                   body i j r = setitem r (linindex i j N) (val i j)"
    and range: "\<And>i. 0 \<le> i \<Longrightarrow> i < N \<Longrightarrow> g i = [i + 1..N - 1]"
    and len: "int (length r) = N * (N - 1) div 2"
  shows "efold (\<lambda>i. efold (body i) (g i)) [0..N - 1] r =
         Inr (fold (\<lambda>p r. r[nat (linindex (fst p) (snd p) N) := val (fst p) (snd p)])
                (pairs N) r)"
proof -
  have "efold (\<lambda>i. efold (body i) (g i)) [0..N - 1] r =
        efold (\<lambda>i. efold (body i) [i + 1..N - 1]) [0..N - 1] r"
    by (rule efold_cong) (simp add: range)
  also have "\<dots> = efold (\<lambda>(i, j). body i j) (pairs N) r"
    by (simp add: efold_nested pairs_def)
  also have "\<dots> = efold (\<lambda>p r. setitem r (linindex (fst p) (snd p) N) (val (fst p) (snd p)))
                      (pairs N) r"
    by (rule efold_cong) (auto simp: set_pairs body)
  also have "\<dots> = Inr (fold (\<lambda>p r. r[nat (linindex (fst p) (snd p) N) := val (fst p) (snd p)])
                         (pairs N) r)"
    by (rule efold_setitem) (auto simp: set_pairs len linindex_bounds)
  finally show ?thesis .
qed

lemma r_ij_cython_packed:
  assumes "is_Nx3 coords" "length coords \<le> 46341"
  shows "r_ij_cython coords = Inr (packed coords)"
proof -
  define N where "N = int (length coords)"
  define M where "M = N * (N - 1) div 2"
  have N: "0 \<le> N" "N \<le> 46341"
    using assms by (simp_all add: N_def)
  then have cN: "c_int N = N"
    by (intro c_int_id) auto
  have M: "0 \<le> M"
    unfolding M_def using N by (intro slots_nonneg)
  have alloc: "np_zeros (alloc_cython N) = Inr (replicate (nat M) 0)"
    using N M by (simp add: alloc_cython_eq np_zeros_def M_def)
  have loops: "efold (\<lambda>i. efold (body_cython coords N i) (py_range (c_add i 1) N)) [0..N - 1]
                 (replicate (nat M) 0) =
        Inr (fold (\<lambda>p r. r[nat (linindex (fst p) (snd p) N) :=
                             sqrt (sqdist coords (nat (fst p)) (nat (snd p)))])
               (pairs N) (replicate (nat M) 0))"
  proof (rule kernel_loops)
    fix i j r
    assume "0 \<le> i" "i < j" "j < N"
    then show "body_cython coords N i j r =
                 setitem r (linindex i j N) (sqrt (sqdist coords (nat i) (nat j)))"
      using assms(1) N by (intro body_cython_eq) (auto simp: N_def)
  next
    fix i
    assume "0 \<le> i" "i < N"
    then show "py_range (c_add i 1) N = [i + 1..N - 1]"
      using N by (simp add: py_range_def c_add_def c_int_id)
  next
    show "int (length (replicate (nat M) (0::real))) = N * (N - 1) div 2"
      using M by (simp add: M_def)
  qed
  have "r_ij_cython coords =
          efold (\<lambda>i. efold (body_cython coords N i) (py_range (c_add i 1) N)) (py_range 0 N)
            (replicate (nat M) 0)"
    unfolding r_ij_cython_def N_def [symmetric] Let_def cN alloc by simp
  also have "py_range 0 N = [0..N - 1]"
    by (simp add: py_range_def)
  finally show ?thesis
    unfolding loops by (simp add: packed_def Let_def N_def [symmetric] M_def)
qed

lemma length_packed:
  "length (packed coords) = nat (int (length coords) * (int (length coords) - 1) div 2)"
  by (simp add: packed_def Let_def length_fold_update)

lemma nth_packed:
  assumes "i < j" "j < length coords"
  shows "packed coords ! nat (linindex (int i) (int j) (int (length coords))) =
           sqrt (sqdist coords i j)"
proof -
  define N where "N = int (length coords)"
  let ?ix = "\<lambda>p. nat (linindex (fst p) (snd p) N)"
  let ?val = "\<lambda>p. sqrt (sqdist coords (nat (fst p)) (nat (snd p)))"
  have inj: "inj_on ?ix (set (pairs N))"
  proof (rule inj_onI)
    fix p q
    assume p: "p \<in> set (pairs N)" and q: "q \<in> set (pairs N)" and eq: "?ix p = ?ix q"
    from p q have b: "0 \<le> fst p" "fst p < snd p" "snd p < N" "0 \<le> fst q" "fst q < snd q" "snd q < N"
      by (auto simp: set_pairs)
    then have "0 \<le> linindex (fst p) (snd p) N" "0 \<le> linindex (fst q) (snd q) N"
      by (simp_all add: linindex_bounds)
    with eq have "linindex (fst p) (snd p) N = linindex (fst q) (snd q) N"
      by simp
    with b have "fst p = fst q \<and> snd p = snd q"
      by (intro linindex_inj [of _ _ N]) auto
    then show "p = q" by (simp add: prod_eq_iff)
  qed
  have mem: "(int i, int j) \<in> set (pairs N)"
    using assms by (simp add: set_pairs N_def)
  have "0 \<le> linindex (int i) (int j) N" "linindex (int i) (int j) N < N * (N - 1) div 2"
    using assms by (simp_all add: linindex_bounds N_def)
  then have len: "?ix (int i, int j) < length (replicate (nat (N * (N - 1) div 2)) (0::real))"
    by simp
  have "fold (\<lambda>p r. r[?ix p := ?val p]) (pairs N) (replicate (nat (N * (N - 1) div 2)) 0)
          ! ?ix (int i, int j) = ?val (int i, int j)"
    using inj mem len by (rule nth_fold_update)
  then show ?thesis
    by (simp add: packed_def Let_def N_def [symmetric])
qed

section \<open>The Fortran kernel computes the packed vector\<close>

text \<open>
  \<open>getrij\<close> reads the flattened matrix: element \<open>3 * i + k\<close> of \<open>ravel coords\<close> is
  \<open>coords[i][k]\<close>. The 1-based \<open>linindex_fortran\<close> is \<open>linindex + 1\<close>, so the slot
  stored is the same as in the Cython kernel; here the products stay in range up to
  46342 rows.
\<close>

lemma length_ravel: "is_Nx3 coords \<Longrightarrow> length (ravel coords) = 3 * length coords"
  by (induction coords) (simp_all add: ravel_def is_Nx3_def)

lemma nth_ravel:
  "is_Nx3 coords \<Longrightarrow> i < length coords \<Longrightarrow> k < 3 \<Longrightarrow>
     ravel coords ! (3 * i + k) = coords ! i ! k"
proof (induction coords arbitrary: i)
  case Nil
  then show ?case by simp
next
  case (Cons row rows)
  then have row: "length row = 3" and rows: "is_Nx3 rows"
    by (simp_all add: is_Nx3_def)
  show ?case
  proof (cases i)
    case 0
    with Cons.prems row show ?thesis
      by (simp add: ravel_def nth_append)
  next
    case (Suc i')
    with Cons.prems have "ravel rows ! (3 * i' + k) = rows ! i' ! k"
      by (intro Cons.IH rows) auto
    with Suc row show ?thesis
      by (simp add: ravel_def nth_append)
  qed
qed

lemma f_get_ravel:
  assumes "is_Nx3 coords" "0 \<le> i" "i < int (length coords)" "1 \<le> k" "k \<le> 3"
  shows "f_get (ravel coords) (int (length coords) * 3) (i * 3 + k) =
           Inr (coords ! nat i ! nat (k - 1))"
proof -
  have "nat (i * 3 + k - 1) = 3 * nat i + nat (k - 1)"
    using assms by (simp add: nat_eq_iff)
  moreover have "ravel coords ! (3 * nat i + nat (k - 1)) = coords ! nat i ! nat (k - 1)"
    using assms by (intro nth_ravel) auto
  ultimately show ?thesis
    using assms by (simp add: f_get_def length_ravel)
qed

lemma sqsum_fortran_eq:
  assumes "is_Nx3 coords" "0 \<le> i" "i < N" "0 \<le> j" "j < N"
    "N = int (length coords)" "N \<le> 46342"
  shows "sqsum_fortran (ravel coords) N (c_mul i 3) (c_mul j 3) =
           Inr (sqdist coords (nat i) (nat j))"
proof -
  have c: "c_mul N 3 = int (length coords) * 3" "c_mul i 3 = i * 3" "c_mul j 3 = j * 3"
    using assms by (simp_all add: c_mul_def c_int_id)
  have a: "c_add (i * 3) k = i * 3 + k" "c_add (j * 3) k = j * 3 + k" if "1 \<le> k" "k \<le> 3" for k
    using assms that by (simp_all add: c_add_def c_int_id)
  have "f_get (ravel coords) (int (length coords) * 3) (i * 3 + k) = Inr (coords ! nat i ! nat (k - 1))"
    and "f_get (ravel coords) (int (length coords) * 3) (j * 3 + k) = Inr (coords ! nat j ! nat (k - 1))"
    if "1 \<le> k" "k \<le> 3" for k
    using assms that by (simp_all add: f_get_ravel)
  then show ?thesis
    unfolding sqsum_fortran_def c by (simp add: do_range_def upto_1_3 a sqdist_def)
qed

lemma linindex_fortran_eq:
  assumes "0 \<le> i" "i < j" "j < N" "N \<le> 46342"
  shows "linindex_fortran i j N = linindex i j N + 1"
proof -
  have n1: "c_sub N 1 = N - 1" and i1: "c_add i 1 = i + 1"
    using assms by (simp_all add: c_sub_def c_add_def c_int_id)
  have p1: "0 \<le> i * (N - 1) \<and> i * (N - 1) \<le> 46340 * 46341"
    using assms by (intro product_bound) auto
  then have m1: "c_mul i (N - 1) = i * (N - 1)"
    by (simp add: c_mul_def c_int_id)
  have p2: "0 \<le> i * (i + 1) \<and> i * (i + 1) \<le> 46340 * 46341"
    using assms by (intro product_bound) auto
  then have m2: "c_mul i (i + 1) = i * (i + 1)"
    by (simp add: c_mul_def c_int_id)
  have d: "f_div (i * (i + 1)) 2 = i * (i + 1) div 2"
    using p2 by (simp add: f_div_def)
  have "0 \<le> N * (N - 1) \<and> N * (N - 1) \<le> 46342 * 46341"
    using assms by (intro product_bound) auto
  then have "N * (N - 1) div 2 \<le> 1073767311"
    using zdiv_mono1 [of "N * (N - 1)" 2147534622 2] by simp
  moreover have l: "0 \<le> linindex i j N" "linindex i j N < N * (N - 1) div 2"
    using assms by (simp_all add: linindex_bounds)
  ultimately have lb: "linindex i j N < 1073767311"
    by simp
  define s where "s = i * (N - 1) - i * (i + 1) div 2"
  have ls: "linindex i j N = s + j - 1"
    by (simp add: linindex_def s_def)
  have s1: "c_sub (i * (N - 1)) (i * (i + 1) div 2) = s"
    unfolding c_sub_def s_def [symmetric] using l lb ls assms by (intro c_int_id) auto
  have s2: "c_add s j = s + j"
    unfolding c_add_def using l lb ls assms by (intro c_int_id) auto
  have s3: "c_sub (s + j) 1 = s + j - 1"
    unfolding c_sub_def using l lb ls assms by (intro c_int_id) auto
  have s4: "c_add 1 (s + j - 1) = s + j"
    unfolding c_add_def using l lb ls assms by (simp add: c_int_id)
  show ?thesis
    unfolding linindex_fortran_def n1 i1 m1 m2 d s1 s2 s3 s4 ls by simp
qed

lemma body_fortran_eq:
  assumes "is_Nx3 coords" "0 \<le> i" "i < j" "j < N" "N = int (length coords)" "N \<le> 46342"
    "M = N * (N - 1) div 2"
  shows "body_fortran (ravel coords) N M i (c_mul i 3) j r =
           setitem r (linindex i j N) (sqrt (sqdist coords (nat i) (nat j)))"
proof -
  have "sqsum_fortran (ravel coords) N (c_mul i 3) (c_mul j 3) =
          Inr (sqdist coords (nat i) (nat j))"
    using assms by (intro sqsum_fortran_eq) auto
  moreover have "linindex_fortran i j N = linindex i j N + 1"
    using assms by (intro linindex_fortran_eq) auto
  moreover have "0 \<le> linindex i j N" "linindex i j N < M"
    using assms by (simp_all add: linindex_bounds)
  ultimately show ?thesis
    by (simp add: body_fortran_def Let_def f_set_def setitem_def)
qed

lemma r_ij_fortran_packed:
  assumes "is_Nx3 coords" "length coords \<le> 46342"
  shows "r_ij_fortran coords = Inr (packed coords)"
proof -
  define N where "N = int (length coords)"
  define M where "M = N * (N - 1) div 2"
  have N: "0 \<le> N" "N \<le> 46342"
    using assms by (simp_all add: N_def)
  then have cN: "c_int N = N"
    by (intro c_int_id) auto
  have M: "0 \<le> M"
    unfolding M_def using N by (intro slots_nonneg)
  have "0 \<le> N * (N - 1) \<and> N * (N - 1) \<le> 46342 * 46342"
  proof (cases "N = 0")
    case True
    then show ?thesis by simp
  next
    case False
    with N show ?thesis by (intro product_bound) auto
  qed
  then have "M \<le> 1073790482"
    unfolding M_def using zdiv_mono1 [of "N * (N - 1)" 2147580964 2] by simp
  with M have cM: "c_int M = M"
    by (intro c_int_id) auto
  have M': "(N * N - N) div 2 = M"
    by (simp add: M_def algebra_simps)
  have n1: "c_sub N 1 = N - 1"
    using N by (simp add: c_sub_def c_int_id)
  have loops: "efold (\<lambda>i. efold (body_fortran (ravel coords) N M i (c_mul i 3))
                          (do_range (c_add i 1) (N - 1)))
                 [0..N - 1] (replicate (nat M) 0) =
        Inr (fold (\<lambda>p r. r[nat (linindex (fst p) (snd p) N) :=
                             sqrt (sqdist coords (nat (fst p)) (nat (snd p)))])
               (pairs N) (replicate (nat M) 0))"
  proof (rule kernel_loops)
    fix i j r
    assume "0 \<le> i" "i < j" "j < N"
    then show "body_fortran (ravel coords) N M i (c_mul i 3) j r =
                 setitem r (linindex i j N) (sqrt (sqdist coords (nat i) (nat j)))"
      using assms(1) N by (intro body_fortran_eq) (auto simp: N_def M_def)
  next
    fix i
    assume "0 \<le> i" "i < N"
    then show "do_range (c_add i 1) (N - 1) = [i + 1..N - 1]"
      using N by (simp add: do_range_def c_add_def c_int_id)
  next
    show "int (length (replicate (nat M) (0::real))) = N * (N - 1) div 2"
      using M by (simp add: M_def)
  qed
  have "r_ij_fortran coords = getrij (ravel coords) (replicate (nat M) 0) N M"
    unfolding r_ij_fortran_def N_def [symmetric] Let_def M' cN cM
    using M by (simp add: np_zeros_def)
  also have "\<dots> = Inr (fold (\<lambda>p r. r[nat (linindex (fst p) (snd p) N) :=
                             sqrt (sqdist coords (nat (fst p)) (nat (snd p)))])
               (pairs N) (replicate (nat M) 0))"
    unfolding getrij_def Let_def n1 do_range_def [of 0] by (rule loops)
  finally show ?thesis
    by (simp add: packed_def Let_def N_def [symmetric] M_def)
qed

section \<open>The reference and the sign of the entries\<close>

text \<open>
  The invariant "every entry is non-negative" is carried through the loops of the
  kernels as they are, with no assumption on the shape or the size of the input.
\<close>

lemma sqdist_sum: "sqdist coords i j = (\<Sum>k\<in>{0, 1, 2}. (coords ! i ! k - coords ! j ! k)\<^sup>2)"
  by (simp add: sqdist_def)

lemma sqdist_commute: "sqdist coords j i = sqdist coords i j"
  by (simp add: sqdist_def power2_commute)

lemma reference_nth:
  "i < length coords \<Longrightarrow> j < length coords \<Longrightarrow>
     reference_brute_force coords ! i ! j = sqrt (sqdist coords i j)"
  by (simp add: reference_brute_force_def sqdist_def upt_rec numeral_3_eq_3 numeral_2_eq_2)

lemma sqsum_cython_nonneg: "sqsum_cython coords i j = Inr t \<Longrightarrow> 0 \<le> t"
  unfolding sqsum_cython_def
  by (erule efold_invariant) (auto simp: ebind_case split: sum.splits)

lemma sqsum_fortran_nonneg: "sqsum_fortran coords N ii jj = Inr t \<Longrightarrow> 0 \<le> t"
  unfolding sqsum_fortran_def
  by (erule efold_invariant) (auto simp: ebind_case split: sum.splits)

lemma ebind_Inr: "ebind m f = Inr y \<longleftrightarrow> (\<exists>x. m = Inr x \<and> f x = Inr y)"
  by (cases m) simp_all

lemma update_nonneg:
  "\<forall>x\<in>set r. 0 \<le> x \<Longrightarrow> 0 \<le> v \<Longrightarrow> \<forall>x\<in>set (r[n := v]). (0::real) \<le> x"
  using set_update_subset_insert [of r n v] by auto

lemma body_cython_nonneg:
  assumes "body_cython coords N i j r = Inr r'" and "\<forall>x\<in>set r. 0 \<le> x"
  shows "\<forall>x\<in>set r'. 0 \<le> x"
proof -
  from assms(1) obtain t where t: "sqsum_cython coords i j = Inr t"
    and w: "setitem r (linindex_cython i j N) (sqrt t) = Inr r'"
    unfolding body_cython_def Let_def ebind_Inr by blast
  from w have r': "r' = r[nat (linindex_cython i j N) := sqrt t]"
    by (simp add: setitem_def split: if_splits)
  have "0 \<le> sqrt t"
    using sqsum_cython_nonneg [OF t] by simp
  with assms(2) show ?thesis
    unfolding r' by (rule update_nonneg)
qed

lemma body_fortran_nonneg:
  assumes "body_fortran coords N M i ii j r = Inr r'" and "\<forall>x\<in>set r. 0 \<le> x"
  shows "\<forall>x\<in>set r'. 0 \<le> x"
proof -
  from assms(1) obtain t where t: "sqsum_fortran coords N ii (c_mul j 3) = Inr t"
    and w: "f_set r M (linindex_fortran i j N) (sqrt t) = Inr r'"
    unfolding body_fortran_def Let_def ebind_Inr by blast
  from w have r': "r' = r[nat (linindex_fortran i j N - 1) := sqrt t]"
    by (simp add: f_set_def split: if_splits)
  have "0 \<le> sqrt t"
    using sqsum_fortran_nonneg [OF t] by simp
  with assms(2) show ?thesis
    unfolding r' by (rule update_nonneg)
qed

lemma loops_nonneg:
  assumes "efold (\<lambda>i. efold (body i) (g i)) is r = Inr r'"
    and "\<forall>x\<in>set r. (0::real) \<le> x"
    and "\<And>i j u v. body i j u = Inr v \<Longrightarrow> \<forall>x\<in>set u. 0 \<le> x \<Longrightarrow> \<forall>x\<in>set v. 0 \<le> x"
  shows "\<forall>x\<in>set r'. 0 \<le> x"
proof (rule efold_invariant [OF assms(1), where P = "\<lambda>r. \<forall>x\<in>set r. 0 \<le> x"])
  show "\<forall>x\<in>set r. 0 \<le> x" by fact
next
  fix i u v
  assume "\<forall>x\<in>set u. 0 \<le> x" and inner: "efold (body i) (g i) u = Inr v"
  then show "\<forall>x\<in>set v. 0 \<le> x"
    by (intro efold_invariant [OF inner, where P = "\<lambda>r. \<forall>x\<in>set r. 0 \<le> x"]) (auto dest: assms(3))
qed

lemma zeros_nonneg: "np_zeros n = Inr r \<Longrightarrow> \<forall>x\<in>set r. 0 \<le> x"
  by (auto simp: np_zeros_def split: if_splits)

lemma r_ij_cython_nonneg:
  assumes "r_ij_cython coords = Inr R"
  shows "\<forall>x\<in>set R. 0 \<le> x"
proof -
  define N where "N = c_int (int (length coords))"
  from assms obtain r where r: "np_zeros (alloc_cython N) = Inr r"
    and l: "efold (\<lambda>i. efold (body_cython coords N i) (py_range (c_add i 1) N))
              (py_range 0 N) r = Inr R"
    unfolding r_ij_cython_def Let_def N_def ebind_Inr by blast
  from l zeros_nonneg [OF r] show ?thesis
    by (rule loops_nonneg) (rule body_cython_nonneg)
qed

lemma r_ij_fortran_nonneg:
  assumes "r_ij_fortran coords = Inr R"
  shows "\<forall>x\<in>set R. 0 \<le> x"
proof -
  define N where "N = int (length coords)"
  define M where "M = (N * N - N) div 2"
  from assms obtain r where r: "np_zeros M = Inr r"
    and l: "getrij (ravel coords) r (c_int N) (c_int M) = Inr R"
    unfolding r_ij_fortran_def Let_def N_def M_def ebind_Inr by blast
  from l [unfolded getrij_def Let_def] zeros_nonneg [OF r] show ?thesis
    by (rule loops_nonneg) (rule body_fortran_nonneg)
qed

section \<open>Concrete runs\<close>

lemma slots_nat: "nat (int n * (int n - 1) div 2) = n * (n - 1) div 2"
proof (cases n)
  case 0
  then show ?thesis by simp
next
  case (Suc m)
  have "int (Suc m) * (int (Suc m) - 1) div 2 = int (Suc m * m div 2)"
    by (simp add: zdiv_int algebra_simps)
  then show ?thesis
    unfolding Suc by (simp only: nat_int diff_Suc_1)
qed

lemmas cython_defs =
  r_ij_cython_def alloc_cython_def body_cython_def sqsum_cython_def linindex_cython_def
  getitem2_def setitem_def np_zeros_def py_range_def trunc_def
  c_int_def c_add_def c_sub_def c_mul_def Let_def

lemmas fortran_defs =
  r_ij_fortran_def getrij_def body_fortran_def sqsum_fortran_def linindex_fortran_def
  f_get_def f_set_def np_zeros_def do_range_def ravel_def f_div_def
  c_int_def c_add_def c_sub_def c_mul_def Let_def

lemma three_points_cython: "r_ij_cython [[0, 0, 0], [1, 0, 0], [0, 1, 0]] = Inr [1, 1, sqrt 2]"
  by (simp add: cython_defs upto_rec1 eval_nat_numeral)

lemma three_points_fortran: "r_ij_fortran [[0, 0, 0], [1, 0, 0], [0, 1, 0]] = Inr [1, 1, sqrt 2]"
  by (simp add: fortran_defs upto_rec1 eval_nat_numeral)

section \<open>The kernels while the integers stay in range\<close>

text \<open>
  \<open>N\<close> is \<open>length coords\<close>. Up to \<open>N = 46341\<close> the product \<open>N * (N - 1)\<close> fits a 32-bit
  \<open>int\<close>, no operation of either kernel wraps, and both return the vector that the
  specification describes. These facts delimit the defect that the claims below meet.
\<close>

lemma in_range_distance_at_linindex:
  assumes "is_Nx3 coords" "length coords \<le> 46341" "i < j" "j < length coords"
  shows "\<exists>R. r_ij_cython coords = Inr R \<and> r_ij_fortran coords = Inr R \<and>
           R ! nat (linindex (int i) (int j) (int (length coords))) =
             sqrt (\<Sum>k\<in>{0, 1, 2}. (coords ! i ! k - coords ! j ! k)\<^sup>2)"
proof (intro exI conjI)
  show "r_ij_cython coords = Inr (packed coords)"
    using assms by (simp add: r_ij_cython_packed)
  show "r_ij_fortran coords = Inr (packed coords)"
    using assms by (simp add: r_ij_fortran_packed)
  show "packed coords ! nat (linindex (int i) (int j) (int (length coords))) =
          sqrt (\<Sum>k\<in>{0, 1, 2}. (coords ! i ! k - coords ! j ! k)\<^sup>2)"
    using assms by (simp only: nth_packed sqdist_sum)
qed

lemma in_range_output_length:
  assumes "is_Nx3 coords" "length coords \<le> 46341"
  shows "\<exists>R. r_ij_cython coords = Inr R \<and> r_ij_fortran coords = Inr R \<and>
           length R = length coords * (length coords - 1) div 2"
proof (intro exI conjI)
  show "r_ij_cython coords = Inr (packed coords)"
    using assms by (simp add: r_ij_cython_packed)
  show "r_ij_fortran coords = Inr (packed coords)"
    using assms by (simp add: r_ij_fortran_packed)
  show "length (packed coords) = length coords * (length coords - 1) div 2"
    by (simp only: length_packed slots_nat)
qed

lemma in_range_matches_brute_force:
  assumes "is_Nx3 coords" "length coords \<le> 46341" "i < j" "j < length coords"
  shows "\<exists>R. r_ij_cython coords = Inr R \<and> r_ij_fortran coords = Inr R \<and>
           R ! nat (linindex (int i) (int j) (int (length coords))) =
             reference_brute_force coords ! i ! j \<and>
           R ! nat (linindex (int i) (int j) (int (length coords))) =
             reference_brute_force coords ! j ! i"
proof (intro exI conjI)
  show "r_ij_cython coords = Inr (packed coords)"
    using assms by (simp add: r_ij_cython_packed)
  show "r_ij_fortran coords = Inr (packed coords)"
    using assms by (simp add: r_ij_fortran_packed)
  show "packed coords ! nat (linindex (int i) (int j) (int (length coords))) =
          reference_brute_force coords ! i ! j"
    using assms by (simp add: nth_packed reference_nth)
  show "packed coords ! nat (linindex (int i) (int j) (int (length coords))) =
          reference_brute_force coords ! j ! i"
    using assms by (simp add: nth_packed reference_nth sqdist_commute)
qed

lemma in_range_kernels_agree:
  assumes "is_Nx3 coords" "length coords \<le> 46341"
  shows "\<exists>R. r_ij_cython coords = Inr R \<and> r_ij_fortran coords = Inr R"
  using assms by (simp add: r_ij_cython_packed r_ij_fortran_packed)

text \<open>
  The specification's formula, on its own, packs the upper triangle for every \<open>N\<close>: it is
  a bijection from the pairs onto the slots, and the rows of different outer iterations
  are disjoint.
\<close>

lemma spec_linindex_bijection:
  "bij_betw (\<lambda>(i, j). linindex i j (int n))
     {(i, j). 0 \<le> i \<and> i < j \<and> j < int n} {0..<int n * (int n - 1) div 2}"
  unfolding bij_betw_def
proof
  show "inj_on (\<lambda>(i, j). linindex i j (int n)) {(i, j). 0 \<le> i \<and> i < j \<and> j < int n}"
    by (rule inj_onI) (auto dest: linindex_inj)
  show "(\<lambda>(i, j). linindex i j (int n)) ` {(i, j). 0 \<le> i \<and> i < j \<and> j < int n}
          = {0..<int n * (int n - 1) div 2}"
  proof (intro equalityI subsetI)
    fix m
    assume "m \<in> (\<lambda>(i, j). linindex i j (int n)) ` {(i, j). 0 \<le> i \<and> i < j \<and> j < int n}"
    then show "m \<in> {0..<int n * (int n - 1) div 2}"
      by (auto simp: linindex_bounds)
  next
    fix m
    assume "m \<in> {0..<int n * (int n - 1) div 2}"
    then obtain i j where "0 \<le> i" "i < j" "j < int n" "linindex i j (int n) = m"
      using linindex_surj [of "int n" m] by auto
    then show "m \<in> (\<lambda>(i, j). linindex i j (int n)) ` {(i, j). 0 \<le> i \<and> i < j \<and> j < int n}"
      by (intro image_eqI [of _ _ "(i, j)"]) auto
  qed
qed

lemma spec_linindex_rows_disjoint:
  assumes "0 \<le> i1" "i1 < N" "0 \<le> i2" "i2 < N" "i1 \<noteq> i2"
  shows "(\<lambda>j. linindex i1 j N) ` {i1<..<N} \<inter> (\<lambda>j. linindex i2 j N) ` {i2<..<N} = {}
         \<and> inj_on (\<lambda>j. linindex i1 j N) {i1<..<N}"
proof
  show "(\<lambda>j. linindex i1 j N) ` {i1<..<N} \<inter> (\<lambda>j. linindex i2 j N) ` {i2<..<N} = {}"
  proof (rule ccontr)
    assume "\<not> ?thesis"
    then obtain j1 j2 where "i1 < j1" "j1 < N" "i2 < j2" "j2 < N"
      "linindex i1 j1 N = linindex i2 j2 N"
      by auto
    with assms have "i1 = i2 \<and> j1 = j2"
      by (intro linindex_inj [of _ _ N]) auto
    with assms show False by simp
  qed
  show "inj_on (\<lambda>j. linindex i1 j N) {i1<..<N}"
    by (rule inj_onI) (simp add: linindex_def)
qed

section \<open>The claims of the specification\<close>

text \<open>
  Seven claims meet one defect of the notebook: sizes and indices are computed in 32-bit
  integers (\<open>cdef int\<close> in \<open>r_ij_cython\<close>, default \<open>integer\<close> in \<open>getrij\<close>), and from 46342
  rows on the products \<open>N*N\<close>, \<open>i*(N-1)\<close> and \<open>i*(i+1)\<close> leave that range. Each of these
  claims is shown with the kernel evaluated at an input where it breaks.
\<close>

subsection \<open>C1: the entry at \<open>linindex\<close> is the Euclidean distance\<close>

text \<open>
  C1. For every \<open>N\<close>\<open>\<times>\<close>3 real matrix and every pair of row indices \<open>i < j < N\<close>, the
  vector \<open>R\<close> that the kernel returns has at \<open>linindex(i,j,N)\<close> the square root of the sum
  over \<open>k \<in> {0,1,2}\<close> of \<open>(coords[i][k] - coords[j][k])\<^sup>2\<close>.

  \<open>r_ij_cython\<close> breaks this on 46342 rows \<open>(0,0,0)\<close>: \<open>N*N-N\<close> wraps to \<open>-2147432674\<close>,
  \<open>np.zeros\<close> is asked for a negative size and raises \<open>ValueError\<close>, and no vector is
  returned. Up to 46341 rows the claim holds (lemma \<open>in_range_distance_at_linindex\<close>).
\<close>

theorem cython_returns_no_vector:
  "is_Nx3 (replicate 46342 [0, 0, 0]) \<and> r_ij_cython (replicate 46342 [0, 0, 0]) = Inl ValueError"
  by (simp add: is_Nx3_def list_all_iff cython_defs)

subsection \<open>C2: the length of the output\<close>

text \<open>
  C2. For every \<open>N\<close>, the length of the vector that the kernel returns is \<open>N * (N - 1) / 2\<close>.

  For \<open>N = 46342\<close> that length is 1073767311. The size \<open>int((N*N-N)/2)\<close> that
  \<open>r_ij_cython\<close> computes from the C \<open>int\<close> \<open>N\<close> is \<open>-1073716337\<close>, and the kernel ends in
  \<open>ValueError\<close>; \<open>r_ij_fortran\<close>, whose wrapper computes \<open>(N * N - N) // 2\<close> with Python
  integers, returns a vector of the right length on the same input.
\<close>

theorem cython_size_is_negative:
  "alloc_cython 46342 = - 1073716337
   \<and> r_ij_cython (replicate 46342 [0, 0, 0]) = Inl ValueError
   \<and> r_ij_fortran (replicate 46342 [0, 0, 0]) = Inr (packed (replicate 46342 [0, 0, 0]))
   \<and> length (packed (replicate 46342 [0, 0, 0])) = 1073767311"
proof (intro conjI)
  show "alloc_cython 46342 = - 1073716337"
    by (simp add: cython_defs)
  show "r_ij_cython (replicate 46342 [0, 0, 0]) = Inl ValueError"
    by (simp add: cython_defs)
  show "r_ij_fortran (replicate 46342 [0, 0, 0]) = Inr (packed (replicate 46342 [0, 0, 0]))"
    by (rule r_ij_fortran_packed) (simp_all add: is_Nx3_def list_all_iff)
  show "length (packed (replicate 46342 [0, 0, 0])) = 1073767311"
    by (simp add: length_packed)
qed

subsection \<open>C3: \<open>linindex\<close> is a bijection\<close>

text \<open>
  C3. For every \<open>N\<close>, \<open>linindex(i,j,N) = i*(N-1) - i*(i+1)/2 + j - 1\<close> is a bijection
  from the pairs \<open>0 \<le> i < j < N\<close> onto \<open>{0, ..., N*(N-1)/2 - 1}\<close>.

  The formula is one (lemma \<open>spec_linindex_bijection\<close>); the index that the kernels
  compute from it is not. For \<open>N = 46343\<close> and the pair \<open>(46341, 46342)\<close> the formula gives
  the last slot, 1073813652. In 32-bit integers \<open>i*(i+1) = 2147534622\<close> wraps, and both
  the expression of \<open>r_ij_cython\<close> and, counted from 0, the expression of \<open>getrij\<close> give
  \<open>-1073669996\<close>, which is no slot of the vector.
\<close>

theorem machine_index_leaves_range:
  "linindex 46341 46342 46343 = 1073813652
   \<and> linindex_cython 46341 46342 46343 = - 1073669996
   \<and> linindex_fortran 46341 46342 46343 - 1 = - 1073669996
   \<and> linindex_cython 46341 46342 46343 \<notin> {0..<46343 * (46343 - 1) div 2}
   \<and> linindex_fortran 46341 46342 46343 - 1 \<notin> {0..<46343 * (46343 - 1) div 2}"
  by (simp add: linindex_def linindex_cython_def linindex_fortran_def trunc_def f_div_def
      c_int_def c_add_def c_sub_def c_mul_def)

subsection \<open>C4: different outer iterations write different slots\<close>


subsection \<open>C5: three points\<close>

text \<open>
  C5. For the three points \<open>(0,0,0)\<close>, \<open>(1,0,0)\<close>, \<open>(0,1,0)\<close> the kernels return
  \<open>[1, 1, sqrt 2]\<close>, the values at \<open>linindex(0,1,3) = 0\<close>, \<open>linindex(0,2,3) = 1\<close> and
  \<open>linindex(1,2,3) = 2\<close>.
\<close>

theorem three_points_scenario:
  "r_ij_cython [[0, 0, 0], [1, 0, 0], [0, 1, 0]] = Inr [1, 1, sqrt 2]
   \<and> r_ij_fortran [[0, 0, 0], [1, 0, 0], [0, 1, 0]] = Inr [1, 1, sqrt 2]
   \<and> linindex 0 1 3 = 0 \<and> linindex 0 2 3 = 1 \<and> linindex 1 2 3 = 2"
  by (simp add: three_points_cython three_points_fortran linindex_def)

subsection \<open>C6: no row, one row\<close>

text \<open>
  C6. On a matrix with no row, and on a matrix with one row, the kernels return the empty
  vector and raise no error.
\<close>

theorem degenerate_input_empty:
  assumes "length coords \<le> 1"
  shows "r_ij_cython coords = Inr [] \<and> r_ij_fortran coords = Inr []"
proof -
  from assms have "length coords = 0 \<or> length coords = 1"
    by arith
  then show ?thesis
  proof
    assume "length coords = 0"
    then show ?thesis
      by (simp add: cython_defs fortran_defs)
  next
    assume "length coords = 1"
    then show ?thesis
      by (simp add: cython_defs fortran_defs)
  qed
qed

theorem degenerate_input_empty_witness:
  "length [[1, 2, 3::real]] \<le> 1 \<and> r_ij_cython [[1, 2, 3]] = Inr [] \<and> r_ij_fortran [[1, 2, 3]] = Inr []"
  using degenerate_input_empty [of "[[1, 2, 3]]"] by simp

subsection \<open>C7: agreement with the brute-force reference\<close>

text \<open>
  C7. For every \<open>N\<close>\<open>\<times>\<close>3 input and every pair of distinct row indices, the value that
  the kernel stores for the pair is the distance that a brute-force double loop computes
  for it.

  On 46342 rows \<open>(1,2,3)\<close> the reference has the distance 0 for the pair \<open>(0, 1)\<close>, and
  \<open>r_ij_cython\<close> stores nothing: it ends in \<open>ValueError\<close> at the allocation. Up to 46341
  rows the stored value is the reference's (lemma \<open>in_range_matches_brute_force\<close>).
\<close>

theorem cython_stores_nothing:
  "r_ij_cython (replicate 46342 [1, 2, 3]) = Inl ValueError
   \<and> reference_brute_force (replicate 46342 [1, 2, 3]) ! 0 ! 1 = 0"
  by (simp add: cython_defs reference_brute_force_def)

subsection \<open>C8: the two kernels agree\<close>

text \<open>
  C8. For every \<open>N\<close>\<open>\<times>\<close>3 input, \<open>r_ij_cython\<close> and \<open>r_ij_fortran\<close> give the same result
  (the notebook checks it with \<open>np.allclose\<close>).

  On 46342 rows they differ: \<open>r_ij_fortran\<close> returns the packed vector, and
  \<open>r_ij_cython\<close> raises \<open>ValueError\<close>. Up to 46341 rows they return the same vector
  (lemma \<open>in_range_kernels_agree\<close>).
\<close>

theorem cython_fortran_differ:
  "r_ij_cython (replicate 46342 [0, 0, 0]) = Inl ValueError
   \<and> r_ij_fortran (replicate 46342 [0, 0, 0]) = Inr (packed (replicate 46342 [0, 0, 0]))
   \<and> r_ij_cython (replicate 46342 [0, 0, 0]) \<noteq> r_ij_fortran (replicate 46342 [0, 0, 0])"
proof -
  have c: "r_ij_cython (replicate 46342 [0, 0, 0]) = Inl ValueError"
    by (simp add: cython_defs)
  have f: "r_ij_fortran (replicate 46342 [0, 0, 0]) = Inr (packed (replicate 46342 [0, 0, 0]))"
    by (rule r_ij_fortran_packed) (simp_all add: is_Nx3_def list_all_iff)
  show ?thesis
    unfolding c f by simp
qed

subsection \<open>C9: the computation is total\<close>

text \<open>
  C9. For every well-formed \<open>N\<close>\<open>\<times>\<close>3 numeric input the computation is pure, total and
  deterministic: it ends, and it fails in no way other than those of reading the input.

  50000 rows \<open>(0,0,0)\<close> are a well-formed input, and \<open>r_ij_cython\<close> fails on them with the
  \<open>ValueError\<close> of \<open>np.zeros\<close>, which is no error of reading the input.
\<close>

theorem cython_fails_on_well_formed_input:
  "is_Nx3 (replicate 50000 [0, 0, 0]) \<and> length (replicate 50000 [0, 0, 0::real]) = 50000
   \<and> r_ij_cython (replicate 50000 [0, 0, 0]) = Inl ValueError"
  by (simp add: is_Nx3_def list_all_iff cython_defs)

subsection \<open>C10: the entries are non-negative\<close>

text \<open>
  C10. Every entry of a vector that a kernel returns is non-negative: a slot that was
  written holds a square root, and a slot that was not written holds the zero of
  \<open>np.zeros\<close>. This holds for every input, whatever its shape and size.
\<close>

theorem kernel_output_nonneg:
  assumes "r_ij_cython coords = Inr R \<or> r_ij_fortran coords = Inr R"
  shows "\<forall>x\<in>set R. 0 \<le> x"
  using assms r_ij_cython_nonneg r_ij_fortran_nonneg by blast

text \<open>The theorem at the three points: the entries \<open>1\<close>, \<open>1\<close>, \<open>sqrt 2\<close> are non-negative.\<close>

theorem kernel_output_nonneg_witness:
  "r_ij_cython [[0, 0, 0], [1, 0, 0], [0, 1, 0]] = Inr [1, 1, sqrt 2]
   \<and> list_all (\<lambda>x. 0 \<le> x) [1, 1, sqrt 2]"
  using kernel_output_nonneg [of "[[0, 0, 0], [1, 0, 0], [0, 1, 0]]" "[1, 1, sqrt 2]"]
  by (simp add: three_points_cython)

end
